theory Spec2Isabelle
  imports Main "HOL-Library.Word"
begin

unbundle bit_operations_syntax

section \<open>JavaScript values\<close>

text \<open>
  The values that flow through \<^verbatim>\<open>src/index.js\<close>. A caller-supplied function is known
  by its identity only (\<open>JFun f\<close>); an \<^verbatim>\<open>Error\<close> object by its message. Strings are
  lists of 8-bit characters.
\<close>

datatype jsval =
    Undefined
  | Null
  | JBool bool
  | JNum int
  | JStr string
  | JError string
  | JObj "(string \<times> jsval) list"
  | JFun nat

text \<open>Exceptions are values: every \<^verbatim>\<open>throw\<close> of the source is an \<open>Inl\<close> branch.\<close>

datatype exn = TypeError string

text \<open>The conversion to boolean that \<^verbatim>\<open>if (v)\<close> and \<^verbatim>\<open>v ? a : b\<close> apply.\<close>

fun truthy :: "jsval \<Rightarrow> bool" where
  "truthy Undefined = False"
| "truthy Null = False"
| "truthy (JBool b) = b"
| "truthy (JNum n) = (n \<noteq> 0)"
| "truthy (JStr s) = (s \<noteq> [])"
| "truthy (JError m) = True"
| "truthy (JObj kvs) = True"
| "truthy (JFun f) = True"

text \<open>\<^verbatim>\<open>typeof v == 'function'\<close>\<close>

fun is_function :: "jsval \<Rightarrow> bool" where
  "is_function (JFun f) = True"
| "is_function v = False"

text \<open>The properties of an object literal, in the order they were written.\<close>

fun entries :: "jsval \<Rightarrow> (string \<times> jsval) list" where
  "entries (JObj kvs) = kvs"
| "entries v = []"

text \<open>The value of one property of an object literal, if it has that property.\<close>

definition entry :: "jsval \<Rightarrow> string \<Rightarrow> jsval option" where
  "entry v k = map_of (entries v) k"

section \<open>String operations\<close>

definition is_slash :: "char \<Rightarrow> bool" where
  "is_slash c = (c = CHR ''/'')"

text \<open>\<^verbatim>\<open>s.replace(/\/+$/, '')\<close>: the whole run of slashes at the end of the string goes.\<close>

definition strip_trailing_slashes :: "string \<Rightarrow> string" where
  "strip_trailing_slashes s = rev (dropWhile is_slash (rev s))"

text \<open>\<^verbatim>\<open>s.replace(/^\//, '')\<close>: one slash at the start of the string goes, if there is one.\<close>

fun strip_leading_slash :: "string \<Rightarrow> string" where
  "strip_leading_slash [] = []"
| "strip_leading_slash (c # cs) = (if is_slash c then cs else c # cs)"

text \<open>\<^verbatim>\<open>s.toLowerCase()\<close>, on the ASCII letters.\<close>

definition lower_char :: "char \<Rightarrow> char" where
  "lower_char c =
     (case map_of (zip ''ABCDEFGHIJKLMNOPQRSTUVWXYZ'' ''abcdefghijklmnopqrstuvwxyz'') c of
        Some l \<Rightarrow> l
      | None \<Rightarrow> c)"

definition toLowerCase :: "string \<Rightarrow> string" where
  "toLowerCase s = map lower_char s"

text \<open>The decimal rendering of a number, as \<^verbatim>\<open>'Server returned ' + res.statusCode\<close> appends it.\<close>

definition digit :: "nat \<Rightarrow> char" where
  "digit n = ''0123456789'' ! n"

fun decimal :: "nat \<Rightarrow> string" where
  "decimal n = (if n < 10 then [digit n] else decimal (n div 10) @ [digit (n mod 10)])"

declare decimal.simps [simp del]

text \<open>Reading a decimal numeral back, to say what \<open>decimal\<close> renders.\<close>

definition digit_value :: "char \<Rightarrow> nat" where
  "digit_value c = (case map_of (zip ''0123456789'' [0..<10]) c of Some d \<Rightarrow> d | None \<Rightarrow> 0)"

definition read_decimal :: "string \<Rightarrow> nat" where
  "read_decimal s = foldl (\<lambda>a c. 10 * a + digit_value c) 0 s"

section \<open>The helpers of \<^verbatim>\<open>./utils\<close>\<close>

subsection \<open>Random strings\<close>

text \<open>
  The random source is a tape of draws; a consumer reads from the front and hands back
  the rest of the tape.
\<close>

type_synonym entropy = "nat \<Rightarrow> nat"

definition CHARS :: string where
  "CHARS = ''ABCDEFGHIJKLMNOPQRSTUVWXYZabcdefghijklmnopqrstuvwxyz0123456789''"

text \<open>
  Modelled from the spec: \<^verbatim>\<open>utils.randomString\<close>, which \<^verbatim>\<open>src/index.js\<close> calls and whose
  file is not among the sources. The spec: a string of exactly the requested number of
  characters, each drawn from a fixed alphabet of uppercase letters, lowercase letters and
  digits, using a random source.
\<close>

definition randomString :: "nat \<Rightarrow> entropy \<Rightarrow> string \<times> entropy" where
  "randomString n tape =
     (map (\<lambda>i. CHARS ! (tape i mod length CHARS)) [0..<n], \<lambda>i. tape (i + n))"

subsection \<open>SHA-256\<close>

type_synonym w32 = "32 word"

definition rotr :: "nat \<Rightarrow> w32 \<Rightarrow> w32" where
  "rotr n x = drop_bit n x OR push_bit (32 - n) x"

definition Ch :: "w32 \<Rightarrow> w32 \<Rightarrow> w32 \<Rightarrow> w32" where
  "Ch x y z = (x AND y) XOR (NOT x AND z)"

definition Maj :: "w32 \<Rightarrow> w32 \<Rightarrow> w32 \<Rightarrow> w32" where
  "Maj x y z = (x AND y) XOR (x AND z) XOR (y AND z)"

definition Sigma0 :: "w32 \<Rightarrow> w32" where
  "Sigma0 x = rotr 2 x XOR rotr 13 x XOR rotr 22 x"

definition Sigma1 :: "w32 \<Rightarrow> w32" where
  "Sigma1 x = rotr 6 x XOR rotr 11 x XOR rotr 25 x"

definition sigma0 :: "w32 \<Rightarrow> w32" where
  "sigma0 x = rotr 7 x XOR rotr 18 x XOR drop_bit 3 x"

definition sigma1 :: "w32 \<Rightarrow> w32" where
  "sigma1 x = rotr 17 x XOR rotr 19 x XOR drop_bit 10 x"

text \<open>The lowercase hexadecimal digits, and a 32-bit word written with them, most
  significant digit first.\<close>

definition HEX :: string where
  "HEX = ''0123456789abcdef''"

definition hex_value :: "char \<Rightarrow> nat" where
  "hex_value c = (case map_of (zip HEX [0..<16]) c of Some d \<Rightarrow> d | None \<Rightarrow> 0)"

definition hex_word :: "string \<Rightarrow> w32" where
  "hex_word s = foldl (\<lambda>w c. push_bit 4 w OR of_nat (hex_value c)) 0 s"

text \<open>The sixty-four round constants.\<close>

definition K :: "w32 list" where
  "K = map hex_word
     [''428a2f98'', ''71374491'', ''b5c0fbcf'', ''e9b5dba5'', ''3956c25b'', ''59f111f1'', ''923f82a4'', ''ab1c5ed5'',
      ''d807aa98'', ''12835b01'', ''243185be'', ''550c7dc3'', ''72be5d74'', ''80deb1fe'', ''9bdc06a7'', ''c19bf174'',
      ''e49b69c1'', ''efbe4786'', ''0fc19dc6'', ''240ca1cc'', ''2de92c6f'', ''4a7484aa'', ''5cb0a9dc'', ''76f988da'',
      ''983e5152'', ''a831c66d'', ''b00327c8'', ''bf597fc7'', ''c6e00bf3'', ''d5a79147'', ''06ca6351'', ''14292967'',
      ''27b70a85'', ''2e1b2138'', ''4d2c6dfc'', ''53380d13'', ''650a7354'', ''766a0abb'', ''81c2c92e'', ''92722c85'',
      ''a2bfe8a1'', ''a81a664b'', ''c24b8b70'', ''c76c51a3'', ''d192e819'', ''d6990624'', ''f40e3585'', ''106aa070'',
      ''19a4c116'', ''1e376c08'', ''2748774c'', ''34b0bcb5'', ''391c0cb3'', ''4ed8aa4a'', ''5b9cca4f'', ''682e6ff3'',
      ''748f82ee'', ''78a5636f'', ''84c87814'', ''8cc70208'', ''90befffa'', ''a4506ceb'', ''bef9a3f7'', ''c67178f2'']"

type_synonym hstate = "w32 \<times> w32 \<times> w32 \<times> w32 \<times> w32 \<times> w32 \<times> w32 \<times> w32"

text \<open>The initial hash value.\<close>

definition H0 :: hstate where
  "H0 = (hex_word ''6a09e667'', hex_word ''bb67ae85'', hex_word ''3c6ef372'', hex_word ''a54ff53a'',
         hex_word ''510e527f'', hex_word ''9b05688c'', hex_word ''1f83d9ab'', hex_word ''5be0cd19'')"

text \<open>The \<open>k\<close> low bytes of a number, most significant first.\<close>

fun be_bytes :: "nat \<Rightarrow> nat \<Rightarrow> nat list" where
  "be_bytes 0 n = []"
| "be_bytes (Suc k) n = be_bytes k (n div 256) @ [n mod 256]"

text \<open>
  Padding: the bit 1, zeros up to 56 bytes modulo 64, then the bit length of the message
  in 8 bytes.
\<close>

definition pad :: "nat list \<Rightarrow> nat list" where
  "pad bs = bs @ [128] @ replicate ((119 - length bs mod 64) mod 64) 0 @ be_bytes 8 (8 * length bs)"

definition be_word :: "nat list \<Rightarrow> w32" where
  "be_word bs = foldl (\<lambda>w b. push_bit 8 w OR of_nat b) 0 bs"

text \<open>The padded message as blocks of sixteen 32-bit words.\<close>

definition blocks :: "nat list \<Rightarrow> w32 list list" where
  "blocks bs =
     map (\<lambda>i. map (\<lambda>j. be_word (take 4 (drop (64 * i + 4 * j) bs))) [0..<16]) [0..<length bs div 64]"

text \<open>The message schedule: \<open>extend 48\<close> grows the sixteen words of a block to sixty-four.\<close>

fun extend :: "nat \<Rightarrow> w32 list \<Rightarrow> w32 list" where
  "extend 0 ws = ws"
| "extend (Suc n) ws =
     (let t = length ws
      in extend n (ws @ [sigma1 (ws ! (t - 2)) + ws ! (t - 7) + sigma0 (ws ! (t - 15)) + ws ! (t - 16)]))"

fun round :: "hstate \<Rightarrow> w32 \<times> w32 \<Rightarrow> hstate" where
  "round (a, b, c, d, e, f, g, h) (k, w) =
     (let T1 = h + Sigma1 e + Ch e f g + k + w; T2 = Sigma0 a + Maj a b c
      in (T1 + T2, a, b, c, d + T1, e, f, g))"

fun add8 :: "hstate \<Rightarrow> hstate \<Rightarrow> hstate" where
  "add8 (a, b, c, d, e, f, g, h) (a', b', c', d', e', f', g', h') =
     (a + a', b + b', c + c', d + d', e + e', f + f', g + g', h + h')"

definition compress :: "hstate \<Rightarrow> w32 list \<Rightarrow> hstate" where
  "compress hs block = add8 hs (foldl round hs (zip K (extend 48 block)))"

definition hexdigit :: "nat \<Rightarrow> char" where
  "hexdigit n = HEX ! (n mod 16)"

definition hex32 :: "w32 \<Rightarrow> string" where
  "hex32 w = map (\<lambda>i. hexdigit (unat (drop_bit (4 * i) w AND 15))) [7, 6, 5, 4, 3, 2, 1, 0]"

fun hex_state :: "hstate \<Rightarrow> string" where
  "hex_state (a, b, c, d, e, f, g, h) =
     hex32 a @ hex32 b @ hex32 c @ hex32 d @ hex32 e @ hex32 f @ hex32 g @ hex32 h"

text \<open>
  Modelled from the spec: \<^verbatim>\<open>utils.sha256\<close>, which \<^verbatim>\<open>src/index.js\<close> calls and whose file
  is not among the sources. The spec: the bytes of the string go through SHA-256 and the
  256-bit digest is rendered as lowercase hexadecimal. The function is SHA-256 as
  FIPS 180-4 defines it, over the characters of the string as bytes.
\<close>

definition sha256 :: "string \<Rightarrow> string" where
  "sha256 s = hex_state (foldl compress H0 (blocks (pad (map of_char s))))"

section \<open>The client object\<close>

text \<open>
  The argument of the constructor, with the types its documentation gives
  (\<^verbatim>\<open>@param {string}\<close> for each of the three).
\<close>

record client_options =
  options_url :: string
  options_userId :: string
  options_privateToken :: string

text \<open>
  An instance is its table of own properties. The constructor is the only code that
  writes one, and each value it writes is a string.
\<close>

type_synonym client = "string \<rightharpoonup> string"

text \<open>
  \<^verbatim>\<open>ApiClient(options)\<close>: three assignments to \<^verbatim>\<open>this\<close>. Called without \<^verbatim>\<open>new\<close>, the
  function calls itself with \<^verbatim>\<open>new\<close> and returns that instance, so both ways of calling
  give the object below.
\<close>

definition ApiClient :: "client_options \<Rightarrow> client" where
  "ApiClient options =
     Map.empty(''url'' \<mapsto> strip_trailing_slashes (options_url options),
               ''userId'' \<mapsto> options_userId options,
               ''privateToken'' \<mapsto> options_privateToken options)"

text \<open>
  \<^verbatim>\<open>ApiClient.prototype\<close>, as the module leaves it once loaded: two accessors installed by
  \<^verbatim>\<open>Object.defineProperty\<close>, and six functions installed by assignment. (The property
  \<^verbatim>\<open>constructor\<close> that every prototype has is read nowhere in the module.)
\<close>

datatype verb = GET | POST | PUT | DELETE

fun verb_name :: "verb \<Rightarrow> string" where
  "verb_name GET = ''get''"
| "verb_name POST = ''post''"
| "verb_name PUT = ''put''"
| "verb_name DELETE = ''delete''"

datatype member =
    Getter_baseUrl
  | Getter_headers
  | Method_url
  | Method_request
  | Method_verb verb

definition prototype :: "string \<rightharpoonup> member" where
  "prototype =
     Map.empty(''baseUrl'' \<mapsto> Getter_baseUrl,
               ''headers'' \<mapsto> Getter_headers,
               ''url'' \<mapsto> Method_url,
               ''request'' \<mapsto> Method_request,
               ''get'' \<mapsto> Method_verb GET,
               ''post'' \<mapsto> Method_verb POST,
               ''put'' \<mapsto> Method_verb PUT,
               ''delete'' \<mapsto> Method_verb DELETE)"

text \<open>
  Reading \<^verbatim>\<open>this.p\<close>: an own property is found first; the prototype is asked only when
  the instance has no own property of that name.
\<close>

datatype slot = Own string | Inherited member | Absent

definition lookup :: "client \<Rightarrow> string \<Rightarrow> slot" where
  "lookup this p =
     (case this p of
        Some s \<Rightarrow> Own s
      | None \<Rightarrow> (case prototype p of Some m \<Rightarrow> Inherited m | None \<Rightarrow> Absent))"

text \<open>
  The text of the function assigned to \<^verbatim>\<open>ApiClient.prototype.url\<close>, which is what the
  function turns into when it is an operand of a string concatenation.
\<close>

definition url_source :: string where
  "url_source =
     ''function(endpoint) {'' @ [CHR 0x0A] @
     ''  return this.baseUrl + '' @ [CHR 0x27] @ ''/'' @ [CHR 0x27] @
     '' + endpoint.replace(/^'' @ [CHR 0x5C] @ ''//, '' @ [CHR 0x27, CHR 0x27] @ '');'' @ [CHR 0x0A] @
     ''}''"

text \<open>The getter of \<^verbatim>\<open>baseUrl\<close>: \<^verbatim>\<open>this.url + '/api'\<close>.\<close>

definition baseUrl :: "client \<Rightarrow> string" where
  "baseUrl this =
     (case lookup this ''url'' of
        Own s \<Rightarrow> s
      | Inherited m \<Rightarrow> url_source
      | Absent \<Rightarrow> ''undefined'') @ ''/api''"

text \<open>
  The getter of \<^verbatim>\<open>headers\<close>. It draws the nonce, hashes
  \<^verbatim>\<open>nonce + ':' + this.privateToken\<close> and returns the object literal.
\<close>

definition headers :: "client \<Rightarrow> entropy \<Rightarrow> jsval \<times> entropy" where
  "headers this tape =
     (let (nonce, tape') = randomString 32 tape;
          token = sha256 (nonce @ '':'' @
                    (case lookup this ''privateToken'' of Own s \<Rightarrow> s | _ \<Rightarrow> ''undefined''))
      in (JObj [(''ProStore-Auth-UserId'',
                   (case lookup this ''userId'' of Own s \<Rightarrow> JStr s | _ \<Rightarrow> Undefined)),
                (''ProStore-Auth-Nonce'', JStr nonce),
                (''ProStore-Auth-Token'', JStr token)],
          tape'))"

text \<open>
  The function \<^verbatim>\<open>ApiClient.prototype.url\<close>:
  \<^verbatim>\<open>this.baseUrl + '/' + endpoint.replace(/^\//, '')\<close>.
\<close>

definition url :: "client \<Rightarrow> string \<Rightarrow> string" where
  "url this endpoint =
     (case lookup this ''baseUrl'' of
        Own s \<Rightarrow> s
      | Inherited m \<Rightarrow> baseUrl this
      | Absent \<Rightarrow> ''undefined'') @ ''/'' @ strip_leading_slash endpoint"

text \<open>
  The call \<^verbatim>\<open>this.url(endpoint)\<close>: the value of \<^verbatim>\<open>this.url\<close> is looked up, and called if
  it is a function. A string is not callable.
\<close>

definition call_url :: "client \<Rightarrow> string \<Rightarrow> exn + jsval" where
  "call_url this endpoint =
     (case lookup this ''url'' of
        Own s \<Rightarrow> Inl (TypeError ''this.url is not a function'')
      | Inherited m \<Rightarrow> Inr (JStr (url this endpoint))
      | Absent \<Rightarrow> Inl (TypeError ''this.url is not a function''))"

text \<open>The read \<^verbatim>\<open>this.headers\<close>.\<close>

definition get_headers :: "client \<Rightarrow> entropy \<Rightarrow> jsval \<times> entropy" where
  "get_headers this tape =
     (case lookup this ''headers'' of
        Own s \<Rightarrow> (JStr s, tape)
      | Inherited m \<Rightarrow> headers this tape
      | Absent \<Rightarrow> (Undefined, tape))"

text \<open>
  \<^verbatim>\<open>ApiClient.prototype.request\<close>. The object literal is evaluated property by property,
  in the order written: \<^verbatim>\<open>method\<close>, \<^verbatim>\<open>url\<close>, \<^verbatim>\<open>headers\<close>, \<^verbatim>\<open>json\<close>; an exception
  raised by one of them leaves the later ones unevaluated. An omitted argument is \<open>None\<close>.
  The result stands for the function that \<^verbatim>\<open>request.defaults\<close> returns: it is the
  object of defaults that function carries.
\<close>

definition request :: "client \<Rightarrow> entropy \<Rightarrow> string option \<Rightarrow> string option \<Rightarrow> exn + (jsval \<times> entropy)" where
  "request this tape method endpoint =
     (let m = (case method of
                 None \<Rightarrow> Undefined
               | Some s \<Rightarrow> if s \<noteq> [] then JStr (toLowerCase s) else Undefined)
      in case (case endpoint of
                 None \<Rightarrow> Inr Undefined
               | Some e \<Rightarrow> if e \<noteq> [] then call_url this e else Inr Undefined) of
           Inl x \<Rightarrow> Inl x
         | Inr u \<Rightarrow>
             (let (h, tape') = get_headers this tape
              in Inr (JObj [(''method'', m), (''url'', u), (''headers'', h), (''json'', JBool True)],
                      tape')))"

text \<open>The call \<^verbatim>\<open>this.request(method, endpoint)\<close>.\<close>

definition call_request :: "client \<Rightarrow> entropy \<Rightarrow> string option \<Rightarrow> string option \<Rightarrow> exn + (jsval \<times> entropy)" where
  "call_request this tape method endpoint =
     (case lookup this ''request'' of
        Own s \<Rightarrow> Inl (TypeError ''this.request is not a function'')
      | Inherited m \<Rightarrow> request this tape method endpoint
      | Absent \<Rightarrow> Inl (TypeError ''this.request is not a function''))"

section \<open>The verb methods\<close>

text \<open>
  The transport is the \<^verbatim>\<open>request\<close> package, outside this repository. Given the defaults
  and the options of a call it performs the round trip and then calls the handler once,
  with \<^verbatim>\<open>(err, res, data)\<close>: these three are a \<open>completion\<close>.
\<close>

record response =
  statusCode :: nat

record completion =
  err :: jsval
  res :: "response option"
  data :: jsval

type_synonym transport = "jsval \<Rightarrow> jsval \<Rightarrow> completion"

text \<open>
  What a call of a verb method comes to: the method raised before anything was sent;
  the handler raised; or the callback \<open>f\<close> was called with a list of arguments.
\<close>

datatype outcome =
    Threw exn
  | HandlerThrew exn
  | CalledBack nat "jsval list"

fun callbacks :: "outcome \<Rightarrow> nat" where
  "callbacks (CalledBack f args) = 1"
| "callbacks out = 0"

text \<open>The call \<^verbatim>\<open>cb(args)\<close>.\<close>

fun invoke :: "jsval \<Rightarrow> jsval list \<Rightarrow> outcome" where
  "invoke (JFun f) args = CalledBack f args"
| "invoke v args = HandlerThrew (TypeError ''cb is not a function'')"

text \<open>The function handed to the transport: \<^verbatim>\<open>function(err, res, data) { ... }\<close>.\<close>

definition handler :: "jsval \<Rightarrow> completion \<Rightarrow> outcome" where
  "handler cb c =
     (if truthy (err c) then invoke cb [err c]
      else case res c of
             None \<Rightarrow> HandlerThrew (TypeError ''res is undefined'')
           | Some r \<Rightarrow>
               if statusCode r \<ge> 400
               then invoke cb [JError (''Server returned '' @ decimal (statusCode r))]
               else invoke cb [Null, data c])"

text \<open>The first statement of a verb method: \<^verbatim>\<open>if (typeof options == 'function') ...\<close>.\<close>

definition resolve :: "jsval \<Rightarrow> jsval \<Rightarrow> jsval \<times> jsval" where
  "resolve options cb = (if is_function options then (JObj [], options) else (options, cb))"

text \<open>
  \<^verbatim>\<open>ApiClient.prototype[method]\<close> for \<^verbatim>\<open>method\<close> in \<^verbatim>\<open>['get', 'post', 'put', 'delete']\<close>.
  The handler runs when the transport completes; the outcome is what the call has come
  to by then.
\<close>

definition verb_method :: "transport \<Rightarrow> verb \<Rightarrow> client \<Rightarrow> entropy \<Rightarrow> string option \<Rightarrow> jsval \<Rightarrow> jsval \<Rightarrow> outcome" where
  "verb_method T method this tape endpoint options cb =
     (let (options', cb') = resolve options cb
      in case call_request this tape (Some (verb_name method)) endpoint of
           Inl x \<Rightarrow> Threw x
         | Inr (r, tape') \<Rightarrow> handler cb' (T r options'))"

section \<open>The URL shape of the specification\<close>

text \<open>
  The specification's words for an endpoint URL: the base, \<^verbatim>\<open>api\<close> and the endpoint,
  with exactly one slash between each two, whatever slashes the base ends with and the
  endpoint starts with.
\<close>

definition spec_endpoint_url :: "string \<Rightarrow> string \<Rightarrow> string" where
  "spec_endpoint_url base endpoint =
     strip_trailing_slashes base @ ''/api/'' @ dropWhile is_slash endpoint"

section \<open>Property lookup on a constructed client\<close>

lemma lookup_ApiClient_url:
  "lookup (ApiClient opts) ''url'' = Own (strip_trailing_slashes (options_url opts))"
  by (simp add: lookup_def ApiClient_def)

lemma lookup_ApiClient_userId:
  "lookup (ApiClient opts) ''userId'' = Own (options_userId opts)"
  by (simp add: lookup_def ApiClient_def)

lemma lookup_ApiClient_privateToken:
  "lookup (ApiClient opts) ''privateToken'' = Own (options_privateToken opts)"
  by (simp add: lookup_def ApiClient_def)

lemma lookup_ApiClient_baseUrl:
  "lookup (ApiClient opts) ''baseUrl'' = Inherited Getter_baseUrl"
  by (simp add: lookup_def ApiClient_def prototype_def)

lemma lookup_ApiClient_headers:
  "lookup (ApiClient opts) ''headers'' = Inherited Getter_headers"
  by (simp add: lookup_def ApiClient_def prototype_def)

lemma lookup_ApiClient_request:
  "lookup (ApiClient opts) ''request'' = Inherited Method_request"
  by (simp add: lookup_def ApiClient_def prototype_def)

lemmas lookup_ApiClient =
  lookup_ApiClient_url lookup_ApiClient_userId lookup_ApiClient_privateToken
  lookup_ApiClient_baseUrl lookup_ApiClient_headers lookup_ApiClient_request

section \<open>Strings\<close>

lemma no_trailing_slash:
  "strip_trailing_slashes s = [] \<or> \<not> is_slash (last (strip_trailing_slashes s))"
proof (cases "dropWhile is_slash (rev s)")
  case Nil
  then show ?thesis by (simp add: strip_trailing_slashes_def)
next
  case (Cons c cs)
  then have "\<not> is_slash c"
    by (metis hd_dropWhile list.sel(1) list.distinct(1))
  with Cons show ?thesis by (simp add: strip_trailing_slashes_def)
qed

lemma no_leading_slash:
  "dropWhile is_slash e = [] \<or> \<not> is_slash (hd (dropWhile is_slash e))"
  using hd_dropWhile by blast

text \<open>With at most one slash in front, taking one slash off takes them all off.\<close>

lemma strip_leading_slash_once:
  assumes "length (takeWhile is_slash e) \<le> 1"
  shows "strip_leading_slash e = dropWhile is_slash e"
proof (cases e)
  case Nil
  then show ?thesis by simp
next
  case (Cons c cs)
  show ?thesis
  proof (cases "is_slash c")
    case True
    with assms Cons have "takeWhile is_slash cs = []" by simp
    then have "dropWhile is_slash cs = cs"
      by (metis takeWhile_dropWhile_id append_Nil)
    with True Cons show ?thesis by simp
  next
    case False
    with Cons show ?thesis by simp
  qed
qed

text \<open>\<open>decimal\<close> is the decimal numeral of its argument: read back, it gives the number.\<close>

lemma digit_value_digit:
  assumes "n < 10"
  shows "digit_value (digit n) = n"
proof -
  from assms have "n \<in> set [0..<10]" by simp
  moreover have "list_all (\<lambda>n. digit_value (digit n) = n) [0..<10]" by code_simp
  ultimately show ?thesis unfolding list_all_iff by blast
qed

lemma read_decimal_decimal: "read_decimal (decimal n) = n"
proof (induction n rule: decimal.induct)
  case (1 n)
  show ?case
  proof (cases "n < 10")
    case True
    then show ?thesis
      by (simp add: decimal.simps [of n] read_decimal_def digit_value_digit)
  next
    case False
    with 1 have "read_decimal (decimal (n div 10)) = n div 10" by simp
    with False show ?thesis
      by (simp add: decimal.simps [of n] read_decimal_def digit_value_digit)
  qed
qed

section \<open>The helpers\<close>

lemma length_CHARS: "length CHARS = 62"
  by (simp add: CHARS_def)

lemma length_randomString: "length (fst (randomString n tape)) = n"
  by (simp add: randomString_def)

lemma set_randomString: "set (fst (randomString n tape)) \<subseteq> set CHARS"
proof
  fix c assume "c \<in> set (fst (randomString n tape))"
  then obtain i where "c = CHARS ! (tape i mod length CHARS)"
    by (auto simp add: randomString_def)
  moreover have "tape i mod length CHARS < length CHARS"
    by (simp add: length_CHARS)
  ultimately show "c \<in> set CHARS" by simp
qed

lemma length_hex32: "length (hex32 w) = 8"
  by (simp add: hex32_def)

lemma hexdigit_in_HEX: "hexdigit n \<in> set HEX"
proof -
  have "n mod 16 < length HEX" by (simp add: HEX_def)
  then show ?thesis unfolding hexdigit_def by (rule nth_mem)
qed

lemma set_hex32: "set (hex32 w) \<subseteq> set HEX"
  unfolding hex32_def using hexdigit_in_HEX by auto

lemma length_hex_state: "length (hex_state hs) = 64"
  by (induction hs rule: hex_state.induct) (simp add: length_hex32)

lemma set_hex_state: "set (hex_state hs) \<subseteq> set HEX"
  by (induction hs rule: hex_state.induct) (simp add: set_hex32)

lemma length_sha256: "length (sha256 s) = 64"
  by (simp add: sha256_def length_hex_state)

lemma set_sha256: "set (sha256 s) \<subseteq> set HEX"
  by (simp add: sha256_def set_hex_state)

text \<open>
  Two digests that every implementation of SHA-256 gives: that of the empty string, which
  the documentation of the constructor uses as its sample token, and that of the
  one-block message of FIPS 180-4.
\<close>

lemma sha256_empty:
  "sha256 [] = ''e3b0c44298fc1c149afbf4c8996fb92427ae41e4649b934ca495991b7852b855''"
  by code_simp

lemma sha256_abc:
  "sha256 ''abc'' = ''ba7816bf8f01cfea414140de5dae2223b00361a396177a9cb410ff61f20015ad''"
  by code_simp

section \<open>What the methods compute on a constructed client\<close>

lemma baseUrl_ApiClient:
  "baseUrl (ApiClient opts) = strip_trailing_slashes (options_url opts) @ ''/api''"
  by (simp add: baseUrl_def lookup_ApiClient)

text \<open>The function \<open>url\<close>, for every base URL and every endpoint.\<close>

lemma url_ApiClient:
  "url (ApiClient opts) endpoint =
     strip_trailing_slashes (options_url opts) @ ''/api/'' @ strip_leading_slash endpoint"
  by (simp add: url_def baseUrl_def lookup_ApiClient)

lemma headers_ApiClient:
  "headers (ApiClient opts) tape =
     (JObj [(''ProStore-Auth-UserId'', JStr (options_userId opts)),
            (''ProStore-Auth-Nonce'', JStr (fst (randomString 32 tape))),
            (''ProStore-Auth-Token'',
               JStr (sha256 (fst (randomString 32 tape) @ '':'' @ options_privateToken opts)))],
      snd (randomString 32 tape))"
  by (simp add: headers_def lookup_ApiClient split: prod.split)

text \<open>
  With the endpoint omitted or empty, \<open>request\<close> never reads \<^verbatim>\<open>this.url\<close> and returns
  its defaults; the URL of the call is then the caller's to give, in the options.
\<close>

lemma request_without_endpoint:
  assumes "endpoint = None \<or> endpoint = Some []"
  shows "request (ApiClient opts) tape method endpoint =
     Inr (JObj [(''method'', (case method of
                               None \<Rightarrow> Undefined
                             | Some s \<Rightarrow> if s \<noteq> [] then JStr (toLowerCase s) else Undefined)),
                (''url'', Undefined),
                (''headers'', fst (headers (ApiClient opts) tape)),
                (''json'', JBool True)],
          snd (headers (ApiClient opts) tape))"
  using assms
  by (auto simp add: request_def get_headers_def lookup_ApiClient split: prod.split)

text \<open>A verb method then hands these defaults to the transport and runs the handler.\<close>

lemma verb_method_without_endpoint:
  assumes "endpoint = None \<or> endpoint = Some []"
  shows "verb_method T v (ApiClient opts) tape endpoint options cb =
     handler (snd (resolve options cb))
       (T (JObj [(''method'', JStr (verb_name v)),
                 (''url'', Undefined),
                 (''headers'', fst (headers (ApiClient opts) tape)),
                 (''json'', JBool True)])
          (fst (resolve options cb)))"
proof -
  have "toLowerCase (verb_name v) = verb_name v" and "verb_name v \<noteq> []"
    by (cases v; simp add: toLowerCase_def lower_char_def)+
  then show ?thesis
    using request_without_endpoint [OF assms, of opts tape "Some (verb_name v)"]
    by (simp add: verb_method_def call_request_def lookup_ApiClient split: prod.split)
qed

text \<open>Once the transport has completed, the handler calls a callable callback exactly once.\<close>

lemma handler_calls_back_once:
  assumes "truthy (err c) \<or> res c \<noteq> None"
  shows "callbacks (handler (JFun f) c) = 1"
  using assms by (auto simp add: handler_def)

section \<open>The properties of the specification\<close>

text \<open>
  C1. For every client with private token \<open>t\<close>, the object that the \<^verbatim>\<open>headers\<close> getter
  returns has a \<^verbatim>\<open>ProStore-Auth-Token\<close> field equal to the lowercase-hex SHA-256 digest of
  \<^verbatim>\<open>nonce + ":" + t\<close>, where \<^verbatim>\<open>nonce\<close> is the \<^verbatim>\<open>ProStore-Auth-Nonce\<close> field of the same
  object. The token is a function of the nonce and the secret alone.
\<close>

theorem headers_token_is_digest:
  "\<exists>nonce.
     entry (fst (headers (ApiClient opts) tape)) ''ProStore-Auth-Nonce'' = Some (JStr nonce) \<and>
     entry (fst (headers (ApiClient opts) tape)) ''ProStore-Auth-Token'' =
       Some (JStr (sha256 (nonce @ '':'' @ options_privateToken opts)))"
  by (simp add: headers_ApiClient entry_def)

text \<open>
  C2. The object that the \<^verbatim>\<open>headers\<close> getter returns has exactly three fields, named
  \<^verbatim>\<open>ProStore-Auth-UserId\<close>, \<^verbatim>\<open>ProStore-Auth-Nonce\<close> and \<^verbatim>\<open>ProStore-Auth-Token\<close>, and its
  \<^verbatim>\<open>ProStore-Auth-UserId\<close> field is the configured user identifier, unmodified.
\<close>

theorem headers_three_fields:
  "map fst (entries (fst (headers (ApiClient opts) tape))) =
     [''ProStore-Auth-UserId'', ''ProStore-Auth-Nonce'', ''ProStore-Auth-Token''] \<and>
   entry (fst (headers (ApiClient opts) tape)) ''ProStore-Auth-UserId'' =
     Some (JStr (options_userId opts))"
  by (simp add: headers_ApiClient entry_def)

text \<open>
  C3, as amended. For every base URL and every non-empty endpoint that starts with at
  most one slash, the function \<^verbatim>\<open>ApiClient.prototype.url\<close>, applied to the client, returns
  the URL of the specified shape: the base without its trailing slashes, \<^verbatim>\<open>/api/\<close>, and
  the endpoint without its leading slash.
\<close>

theorem url_one_slash_between_segments:
  assumes "endpoint \<noteq> []"
      and "length (takeWhile is_slash endpoint) \<le> 1"
  shows "url (ApiClient opts) endpoint = spec_endpoint_url (options_url opts) endpoint"
  using assms by (simp add: url_ApiClient spec_endpoint_url_def strip_leading_slash_once)

text \<open>
  The two calls that the specification gives as examples: a base with a trailing slash
  and an endpoint with a leading one, and the same two without.
\<close>

theorem url_one_slash_between_segments_witness:
  "url (ApiClient \<lparr>options_url = ''https://x.test/'', options_userId = ''u'', options_privateToken = ''t''\<rparr>) ''/admin/products'' = ''https://x.test/api/admin/products'' \<and>
   url (ApiClient \<lparr>options_url = ''https://x.test'', options_userId = ''u'', options_privateToken = ''t''\<rparr>) ''admin/products'' = ''https://x.test/api/admin/products''"
  using url_one_slash_between_segments [of "''/admin/products''" "\<lparr>options_url = ''https://x.test/'', options_userId = ''u'', options_privateToken = ''t''\<rparr>"]
        url_one_slash_between_segments [of "''admin/products''" "\<lparr>options_url = ''https://x.test'', options_userId = ''u'', options_privateToken = ''t''\<rparr>"]
  by (simp add: spec_endpoint_url_def strip_trailing_slashes_def is_slash_def)

text \<open>
  An endpoint with two leading slashes keeps one of them: the URL has two slashes
  after \<^verbatim>\<open>api\<close>, and is not the URL of the specified shape.
\<close>

theorem url_double_slash_counterexample:
  "url (ApiClient \<lparr>options_url = ''https://x.test'', options_userId = ''u'', options_privateToken = ''t''\<rparr>) ''//admin/products'' = ''https://x.test/api//admin/products'' \<and>
   url (ApiClient \<lparr>options_url = ''https://x.test'', options_userId = ''u'', options_privateToken = ''t''\<rparr>) ''//admin/products'' \<noteq> spec_endpoint_url ''https://x.test'' ''//admin/products''"
  by (simp add: url_ApiClient spec_endpoint_url_def strip_trailing_slashes_def is_slash_def)

text \<open>
  C4. The specification: for every verb string and every non-empty endpoint, \<^verbatim>\<open>request\<close>
  returns a descriptor with the lowercased verb, the endpoint URL, fresh headers and JSON
  bodies. The code at \<^verbatim>\<open>client.request('GET', 'admin/products')\<close>: the call raises a
  TypeError and returns no descriptor.
\<close>

theorem request_raises_at_endpoint:
  "request (ApiClient \<lparr>options_url = ''https://x.test'', options_userId = ''u'', options_privateToken = ''t''\<rparr>) tape (Some ''GET'') (Some ''admin/products'') =
     Inl (TypeError ''this.url is not a function'')"
  by (simp add: request_def call_url_def lookup_ApiClient)

text \<open>
  C5. The specification: every call of a verb method with a valid endpoint, options and
  callback calls the callback exactly once and does not throw. The code at
  \<^verbatim>\<open>client.get('echo', {}, cb)\<close>: the method raises a TypeError before anything is sent,
  and the callback is never called.
\<close>

theorem verb_method_raises_at_endpoint:
  "verb_method T GET (ApiClient \<lparr>options_url = ''https://x.test'', options_userId = ''u'', options_privateToken = ''t''\<rparr>) tape (Some ''echo'') (JObj []) (JFun 0) =
     Threw (TypeError ''this.url is not a function'') \<and>
   callbacks (verb_method T GET (ApiClient \<lparr>options_url = ''https://x.test'', options_userId = ''u'', options_privateToken = ''t''\<rparr>) tape (Some ''echo'') (JObj []) (JFun 0)) = 0"
  by (simp add: verb_method_def call_request_def request_def call_url_def lookup_ApiClient
        resolve_def)

text \<open>
  C6. On every client that the constructor builds, \<^verbatim>\<open>url\<close> is an own property holding the
  base URL string, and it is found before the prototype's function of the same name.
  So for every method and every non-empty endpoint, \<^verbatim>\<open>request\<close> raises a TypeError where
  it evaluates \<^verbatim>\<open>this.url(endpoint)\<close>, and so does each of the verb methods.
\<close>

theorem own_url_shadows_method:
  "ApiClient opts ''url'' = Some (strip_trailing_slashes (options_url opts)) \<and>
   prototype ''url'' = Some Method_url \<and>
   lookup (ApiClient opts) ''url'' = Own (strip_trailing_slashes (options_url opts)) \<and>
   (endpoint \<noteq> [] \<longrightarrow>
      request (ApiClient opts) tape meth (Some endpoint) =
        Inl (TypeError ''this.url is not a function'') \<and>
      verb_method T v (ApiClient opts) tape (Some endpoint) options cb =
        Threw (TypeError ''this.url is not a function''))"
proof -
  have "ApiClient opts ''url'' = Some (strip_trailing_slashes (options_url opts))"
    by (simp add: ApiClient_def)
  moreover have "prototype ''url'' = Some Method_url"
    by (simp add: prototype_def)
  moreover have raised: "request (ApiClient opts) tape m (Some endpoint) =
      Inl (TypeError ''this.url is not a function'')" if "endpoint \<noteq> []" for m
    using that by (simp add: request_def call_url_def lookup_ApiClient)
  moreover have "verb_method T v (ApiClient opts) tape (Some endpoint) options cb =
      Threw (TypeError ''this.url is not a function'')" if "endpoint \<noteq> []"
    using raised [OF that]
    by (simp add: verb_method_def call_request_def lookup_ApiClient split: prod.split)
  ultimately show ?thesis
    by (simp add: lookup_ApiClient)
qed

text \<open>The documented upload call, and a \<^verbatim>\<open>post\<close> to the same endpoint.\<close>

theorem own_url_shadows_method_witness:
  "request (ApiClient \<lparr>options_url = ''https://x.test'', options_userId = ''u'', options_privateToken = ''t''\<rparr>) (\<lambda>i. 0) (Some ''post'') (Some ''admin/storage/index.html'') =
     Inl (TypeError ''this.url is not a function'') \<and>
   verb_method (\<lambda>d opts. \<lparr>err = Null, res = Some \<lparr>statusCode = 200\<rparr>, data = Null\<rparr>) POST
     (ApiClient \<lparr>options_url = ''https://x.test'', options_userId = ''u'', options_privateToken = ''t''\<rparr>) (\<lambda>i. 0) (Some ''admin/storage/index.html'') (JObj []) (JFun 0) =
     Threw (TypeError ''this.url is not a function'')"
  using own_url_shadows_method
    [where opts = "\<lparr>options_url = ''https://x.test'', options_userId = ''u'', options_privateToken = ''t''\<rparr>" and endpoint = "''admin/storage/index.html''" and tape = "\<lambda>i. 0"
       and meth = "Some ''post''" and v = POST and options = "JObj []" and cb = "JFun 0"
       and T = "\<lambda>d opts. \<lparr>err = Null, res = Some \<lparr>statusCode = 200\<rparr>, data = Null\<rparr>"]
  by simp

text \<open>
  C7. For every call of a verb method that reaches the transport and whose round trip
  succeeds: with a status code of 400 or more the callback is called with one argument,
  an error whose message ends with the decimal status code; with a status code below 400
  it is called with \<^verbatim>\<open>null\<close> and the body.
\<close>

theorem status_decides_callback:
  assumes "call_request this tape (Some (verb_name v)) endpoint = Inr (r, tape')"
      and "resolve options cb = (options', JFun f)"
      and "T r options' = c"
      and "err c = Null"
      and "res c = Some resp"
  shows "verb_method T v this tape endpoint options cb =
           (if statusCode resp \<ge> 400
            then CalledBack f [JError (''Server returned '' @ decimal (statusCode resp))]
            else CalledBack f [Null, data c])"
  using assms by (simp add: verb_method_def handler_def)

text \<open>
  A \<^verbatim>\<open>get\<close> without an endpoint, the URL being in the options, answered with 404 and
  a body.
\<close>

theorem status_decides_callback_witness:
  "verb_method (\<lambda>d opts. \<lparr>err = Null, res = Some \<lparr>statusCode = 404\<rparr>, data = JStr ''Not Found''\<rparr>) GET
     (ApiClient \<lparr>options_url = ''https://x.test'', options_userId = ''u'', options_privateToken = ''t''\<rparr>) (\<lambda>i. 0) None (JObj [(''url'', JStr ''https://x.test/api/echo'')]) (JFun 0) =
   CalledBack 0 [JError ''Server returned 404'']"
  using status_decides_callback
    [where this = "ApiClient \<lparr>options_url = ''https://x.test'', options_userId = ''u'', options_privateToken = ''t''\<rparr>" and tape = "\<lambda>i. 0" and v = GET and endpoint = None
       and r = "JObj [(''method'', JStr ''get''), (''url'', Undefined),
                      (''headers'', fst (headers (ApiClient \<lparr>options_url = ''https://x.test'', options_userId = ''u'', options_privateToken = ''t''\<rparr>) (\<lambda>i. 0))),
                      (''json'', JBool True)]"
       and tape' = "snd (headers (ApiClient \<lparr>options_url = ''https://x.test'', options_userId = ''u'', options_privateToken = ''t''\<rparr>) (\<lambda>i. 0))"
       and options = "JObj [(''url'', JStr ''https://x.test/api/echo'')]" and cb = "JFun 0"
       and options' = "JObj [(''url'', JStr ''https://x.test/api/echo'')]" and f = 0
       and T = "\<lambda>d opts. \<lparr>err = Null, res = Some \<lparr>statusCode = 404\<rparr>, data = JStr ''Not Found''\<rparr>"
       and c = "\<lparr>err = Null, res = Some \<lparr>statusCode = 404\<rparr>, data = JStr ''Not Found''\<rparr>"
       and resp = "\<lparr>statusCode = 404\<rparr>"]
  by (simp add: call_request_def lookup_ApiClient request_without_endpoint resolve_def
        toLowerCase_def lower_char_def decimal.simps digit_def)

text \<open>
  C8. For every call of a verb method that reaches the transport and whose transport
  fails with an error: the callback is called with that error, unmodified, as its only
  argument, whatever the response and the body are.
\<close>

theorem transport_error_passed_on:
  assumes "call_request this tape (Some (verb_name v)) endpoint = Inr (r, tape')"
      and "resolve options cb = (options', JFun f)"
      and "T r options' = c"
      and "truthy (err c)"
  shows "verb_method T v this tape endpoint options cb = CalledBack f [err c]"
  using assms by (simp add: verb_method_def handler_def)

text \<open>A \<^verbatim>\<open>get\<close> without an endpoint whose connection is refused.\<close>

theorem transport_error_passed_on_witness:
  "verb_method (\<lambda>d opts. \<lparr>err = JError ''ECONNREFUSED'', res = None, data = Undefined\<rparr>) GET
     (ApiClient \<lparr>options_url = ''https://x.test'', options_userId = ''u'', options_privateToken = ''t''\<rparr>) (\<lambda>i. 0) None (JObj [(''url'', JStr ''https://x.test/api/echo'')]) (JFun 0) =
   CalledBack 0 [JError ''ECONNREFUSED'']"
  using transport_error_passed_on
    [where this = "ApiClient \<lparr>options_url = ''https://x.test'', options_userId = ''u'', options_privateToken = ''t''\<rparr>" and tape = "\<lambda>i. 0" and v = GET and endpoint = None
       and r = "JObj [(''method'', JStr ''get''), (''url'', Undefined),
                      (''headers'', fst (headers (ApiClient \<lparr>options_url = ''https://x.test'', options_userId = ''u'', options_privateToken = ''t''\<rparr>) (\<lambda>i. 0))),
                      (''json'', JBool True)]"
       and tape' = "snd (headers (ApiClient \<lparr>options_url = ''https://x.test'', options_userId = ''u'', options_privateToken = ''t''\<rparr>) (\<lambda>i. 0))"
       and options = "JObj [(''url'', JStr ''https://x.test/api/echo'')]" and cb = "JFun 0"
       and options' = "JObj [(''url'', JStr ''https://x.test/api/echo'')]" and f = 0
       and T = "\<lambda>d opts. \<lparr>err = JError ''ECONNREFUSED'', res = None, data = Undefined\<rparr>"
       and c = "\<lparr>err = JError ''ECONNREFUSED'', res = None, data = Undefined\<rparr>"]
  by (simp add: call_request_def lookup_ApiClient request_without_endpoint resolve_def
        toLowerCase_def lower_char_def)

text \<open>
  C9. For every user identifier and private token, the nonce in the headers has exactly
  32 characters, each from the alphabet of uppercase letters, lowercase letters and
  digits, and the token has 64 characters, each a lowercase hexadecimal digit.
\<close>

theorem headers_nonce_and_token_format:
  "\<exists>nonce token.
     entry (fst (headers (ApiClient opts) tape)) ''ProStore-Auth-Nonce'' = Some (JStr nonce) \<and>
     entry (fst (headers (ApiClient opts) tape)) ''ProStore-Auth-Token'' = Some (JStr token) \<and>
     length nonce = 32 \<and> set nonce \<subseteq> set CHARS \<and>
     length token = 64 \<and> set token \<subseteq> set HEX"
  using set_sha256 set_randomString
  by (simp add: headers_ApiClient entry_def length_randomString length_sha256)

text \<open>
  C10. For every verb method, endpoint and callback, the call with the callback in the
  place of the options comes to what the call with empty options and that callback
  comes to, whatever the third argument is.
\<close>

theorem callback_in_place_of_options:
  "verb_method T v this tape endpoint (JFun f) x =
   verb_method T v this tape endpoint (JObj []) (JFun f)"
  by (simp add: verb_method_def resolve_def)

end
